theory Spec2Isabelle
  imports Complex_Main "HOL-Library.Sublist" "HOL-Library.Multiset"
begin

section \<open>Python values used by GPUtil\<close>

text \<open>
  A Python float is a finite value, one of the two infinities, or NaN. Finite values are
  carried as reals; the rounding of an arithmetic result to a double is the parameter
  \<open>round64\<close> of the operations that round, so nothing below depends on a particular
  floating-point format. Comparisons of Python numbers are exact on their values, and every
  ordered comparison and every equality with NaN is false.
\<close>

datatype pyfloat = Fin real | PInf | NInf | NaN

text \<open>A number as the untyped field \<open>GPU.id\<close> holds it: \<open>int(vals[0])\<close> in
  \<open>getGPUs\<close>, but the sort keys of \<open>getAvailable\<close> also provide for a NaN.\<close>

datatype pynum = PyInt int | PyFloat pyfloat

datatype error =
    ValueError
  | IndexError
  | KeyError
  | ZeroDivisionError
  | UnboundLocalError
  | OSError
  | RuntimeError string

fun fl_lt :: "pyfloat \<Rightarrow> pyfloat \<Rightarrow> bool" where
  "fl_lt NaN _ = False"
| "fl_lt _ NaN = False"
| "fl_lt (Fin a) (Fin b) = (a < b)"
| "fl_lt (Fin _) PInf = True"
| "fl_lt (Fin _) NInf = False"
| "fl_lt PInf _ = False"
| "fl_lt NInf NInf = False"
| "fl_lt NInf _ = True"

fun fl_eq :: "pyfloat \<Rightarrow> pyfloat \<Rightarrow> bool" where
  "fl_eq (Fin a) (Fin b) = (a = b)"
| "fl_eq PInf PInf = True"
| "fl_eq NInf NInf = True"
| "fl_eq _ _ = False"

definition fl_ge :: "pyfloat \<Rightarrow> pyfloat \<Rightarrow> bool" where
  "fl_ge x y = (fl_lt y x \<or> fl_eq x y)"

definition math_isnan :: "pyfloat \<Rightarrow> bool" where
  "math_isnan x = (x = NaN)"

fun num_val :: "pynum \<Rightarrow> pyfloat" where
  "num_val (PyInt i) = Fin (of_int i)"
| "num_val (PyFloat x) = x"

definition num_lt :: "pynum \<Rightarrow> pynum \<Rightarrow> bool" where
  "num_lt a b = fl_lt (num_val a) (num_val b)"

definition num_eq :: "pynum \<Rightarrow> pynum \<Rightarrow> bool" where
  "num_eq a b = fl_eq (num_val a) (num_val b)"

definition num_isnan :: "pynum \<Rightarrow> bool" where
  "num_isnan a = math_isnan (num_val a)"

text \<open>\<open>x in xs\<close> on a list: some element compares equal to \<open>x\<close>.\<close>

definition num_in :: "pynum \<Rightarrow> pynum list \<Rightarrow> bool" where
  "num_in x xs = list_ex (num_eq x) xs"

definition str_in :: "string \<Rightarrow> string list \<Rightarrow> bool" where
  "str_in x xs = list_ex (\<lambda>e. x = e) xs"

text \<open>Float division \<open>a / b\<close>: a zero divisor raises, whatever the dividend.\<close>

fun py_truediv :: "(real \<Rightarrow> pyfloat) \<Rightarrow> pyfloat \<Rightarrow> pyfloat \<Rightarrow> error + pyfloat" where
  "py_truediv round64 a (Fin b) =
     (if b = 0 then Inl ZeroDivisionError
      else case a of
             Fin x \<Rightarrow> Inr (round64 (x / b))
           | PInf \<Rightarrow> Inr (if 0 < b then PInf else NInf)
           | NInf \<Rightarrow> Inr (if 0 < b then NInf else PInf)
           | NaN \<Rightarrow> Inr NaN)"
| "py_truediv round64 a NaN = Inr NaN"
| "py_truediv round64 (Fin x) b = Inr (Fin 0)"
| "py_truediv round64 a b = Inr NaN"

section \<open>The classes \<open>GPU\<close> and \<open>GPUProcess\<close>\<close>

record GPU =
  gpu_id :: pynum
  uuid :: string
  load :: pyfloat
  memoryUtil :: pyfloat
  memoryTotal :: pyfloat
  memoryUsed :: pyfloat
  memoryFree :: pyfloat
  driver :: string
  name :: string
  serial :: string
  display_mode :: string
  display_active :: string
  temperature :: pyfloat
  vbios_version :: string
  power_draw :: pyfloat
  power_limit :: pyfloat
  core_clock :: int
  memory_clock :: int
  compute_mode :: string
  pci_bus :: int

text \<open>\<open>GPU.__init__\<close>: every field is stored as given, except \<open>memoryUtil\<close>, which is
  computed, so the constructor raises when \<open>memoryTotal\<close> is zero.\<close>

definition GPU_init ::
  "(real \<Rightarrow> pyfloat) \<Rightarrow> pynum \<Rightarrow> string \<Rightarrow> pyfloat \<Rightarrow> pyfloat \<Rightarrow> pyfloat \<Rightarrow> pyfloat \<Rightarrow> string \<Rightarrow>
   string \<Rightarrow> string \<Rightarrow> string \<Rightarrow> string \<Rightarrow> pyfloat \<Rightarrow> int \<Rightarrow> int \<Rightarrow> string \<Rightarrow> pyfloat \<Rightarrow>
   pyfloat \<Rightarrow> string \<Rightarrow> int \<Rightarrow> error + GPU" where
  "GPU_init round64 ID uuid' load' memoryTotal' memoryUsed' memoryFree' driver' gpu_name
     serial' display_mode' display_active' temp_gpu core_clock' memory_clock' vbios_version'
     power_draw' power_limit' compute_mode' pci_bus' =
   (case py_truediv round64 memoryUsed' memoryTotal' of
      Inl e \<Rightarrow> Inl e
    | Inr u \<Rightarrow> Inr \<lparr> gpu_id = ID, uuid = uuid', load = load', memoryUtil = u,
        memoryTotal = memoryTotal', memoryUsed = memoryUsed', memoryFree = memoryFree',
        driver = driver', name = gpu_name, serial = serial', display_mode = display_mode',
        display_active = display_active', temperature = temp_gpu,
        vbios_version = vbios_version', power_draw = power_draw',
        power_limit = power_limit', core_clock = core_clock',
        memory_clock = memory_clock', compute_mode = compute_mode', pci_bus = pci_bus' \<rparr>)"

section \<open>\<open>getAvailability\<close>\<close>

definition getAvailability ::
  "GPU list \<Rightarrow> pyfloat \<Rightarrow> pyfloat \<Rightarrow> pyfloat \<Rightarrow> bool \<Rightarrow> pynum list \<Rightarrow> string list \<Rightarrow>
   string list \<Rightarrow> int list" where
  "getAvailability GPUs maxLoad maxMemory memoryFree' includeNan excludeID excludeUUID
     excludeComputeMode =
   map (\<lambda>gpu.
         if fl_ge (memoryFree gpu) memoryFree'
            \<and> (fl_lt (load gpu) maxLoad \<or> (includeNan \<and> math_isnan (load gpu)))
            \<and> (fl_lt (memoryUtil gpu) maxMemory \<or> (includeNan \<and> math_isnan (memoryUtil gpu)))
            \<and> (\<not> num_in (gpu_id gpu) excludeID
                \<and> \<not> str_in (uuid gpu) excludeUUID
                \<and> \<not> str_in (compute_mode gpu) excludeComputeMode)
         then 1 else 0) GPUs"

section \<open>Builtins and the outside world\<close>

text \<open>
  What the module takes from the interpreter and the platform is a parameter of the model:
  the string parsers \<open>float(s)\<close>, \<open>int(s)\<close> and \<open>int(s, 16)\<close> (\<open>None\<close> is their
  ValueError), the rounding of a quotient to a double, \<open>os.linesep\<close>, the platform name,
  the search of the path for the telemetry binary, the environment variable
  \<open>systemdrive\<close>, and the two sources of nondeterminism: what the \<open>n\<close>-th external
  command does (it raises, \<open>Inl\<close>, or completes with its standard output) and the
  permutation that \<open>random.sample\<close> draws.
\<close>

record pyenv =
  float_of_str :: "string \<Rightarrow> pyfloat option"
  int_of_str :: "string \<Rightarrow> int option"
  int_of_hex :: "string \<Rightarrow> int option"
  round64 :: "real \<Rightarrow> pyfloat"
  repr_float :: "pyfloat \<Rightarrow> string"
  linesep :: string
  platform_system :: string
  find_executable :: "string \<Rightarrow> string option"
  systemdrive :: "string option"
  subprocess_run :: "nat \<Rightarrow> string list \<Rightarrow> error + string"
  random_sample :: "nat \<Rightarrow> nat \<Rightarrow> nat list"

datatype event = Spawn "string list" | Sleep int

text \<open>The state of the world: how many external commands were started, the commands and
  the sleeps in the order they happened, and the lines printed.\<close>

record world =
  spawned :: nat
  trace :: "event list"
  printed :: "string list"

definition ebind :: "error + 'a \<Rightarrow> ('a \<Rightarrow> error + 'b) \<Rightarrow> error + 'b" where
  "ebind m f = (case m of Inl e \<Rightarrow> Inl e | Inr x \<Rightarrow> f x)"

definition py_float :: "pyenv \<Rightarrow> string \<Rightarrow> error + pyfloat" where
  "py_float env s = (case float_of_str env s of None \<Rightarrow> Inl ValueError | Some x \<Rightarrow> Inr x)"

definition py_int :: "pyenv \<Rightarrow> string \<Rightarrow> error + int" where
  "py_int env s = (case int_of_str env s of None \<Rightarrow> Inl ValueError | Some i \<Rightarrow> Inr i)"

definition py_int16 :: "pyenv \<Rightarrow> string \<Rightarrow> error + int" where
  "py_int16 env s = (case int_of_hex env s of None \<Rightarrow> Inl ValueError | Some i \<Rightarrow> Inr i)"

text \<open>\<open>xs[k]\<close> for a non-negative index.\<close>

definition py_index :: "'a list \<Rightarrow> nat \<Rightarrow> error + 'a" where
  "py_index xs k = (if k < length xs then Inr (xs ! k) else Inl IndexError)"

text \<open>\<open>xs[0:stop]\<close>: a negative stop counts from the end, and the slice is clamped.\<close>

definition py_slice_to :: "'a list \<Rightarrow> int \<Rightarrow> 'a list" where
  "py_slice_to xs stop =
     (if stop < 0 then take (nat (int (length xs) + stop)) xs else take (nat stop) xs)"

text \<open>\<open>range(n)\<close> for an integer \<open>n\<close>; empty when \<open>n \<le> 0\<close>.\<close>

definition py_range :: "int \<Rightarrow> int list" where
  "py_range n = map int [0..<nat n]"

text \<open>\<open>s.split(sep)\<close> with a separator: an empty separator raises.\<close>

function split_from :: "string \<Rightarrow> string \<Rightarrow> string \<Rightarrow> string list" where
  "split_from sep acc [] = [rev acc]"
| "split_from sep acc (c # cs) =
     (if sep \<noteq> [] \<and> prefix sep (c # cs)
      then rev acc # split_from sep [] (drop (length sep) (c # cs))
      else split_from sep (c # acc) cs)"
  by pat_completeness auto
termination
  by (relation "measure (\<lambda>(sep, acc, s). length s)") (auto simp: neq_Nil_conv)

definition py_split :: "string \<Rightarrow> string \<Rightarrow> error + string list" where
  "py_split s sep = (if sep = [] then Inl ValueError else Inr (split_from sep [] s))"

text \<open>\<open>str(n)\<close> for an integer.\<close>

function str_nat :: "nat \<Rightarrow> string" where
  "str_nat n = (if n < 10 then [''0123456789'' ! n]
                else str_nat (n div 10) @ [''0123456789'' ! (n mod 10)])"
  by pat_completeness auto
termination
  by (relation "measure id") auto

declare str_nat.simps [simp del]

definition str_int :: "int \<Rightarrow> string" where
  "str_int i = (if i < 0 then CHR ''-'' # str_nat (nat (- i)) else str_nat (nat i))"

definition str_num :: "pyenv \<Rightarrow> pynum \<Rightarrow> string" where
  "str_num env x = (case x of PyInt i \<Rightarrow> str_int i | PyFloat f \<Rightarrow> repr_float env f)"

fun join_with :: "string \<Rightarrow> string list \<Rightarrow> string" where
  "join_with sep [] = []"
| "join_with sep [x] = x"
| "join_with sep (x # y # ys) = x @ sep @ join_with sep (y # ys)"

text \<open>\<open>str(xs)\<close> for a list of numbers.\<close>

definition str_list :: "pyenv \<Rightarrow> pynum list \<Rightarrow> string" where
  "str_list env xs = ''['' @ join_with '', '' (map (str_num env) xs) @ '']''"

text \<open>\<open>subprocess.run\<close> with the standard output captured: the command is started, and
  either the call raises or it completes with the text written.\<close>

definition run_cmd :: "pyenv \<Rightarrow> string list \<Rightarrow> world \<Rightarrow> (error + string) \<times> world" where
  "run_cmd env argv w =
     (subprocess_run env (spawned w) argv,
      w\<lparr> spawned := Suc (spawned w), trace := trace w @ [Spawn argv] \<rparr>)"

text \<open>\<open>time.sleep\<close> refuses a negative length.\<close>

definition time_sleep :: "int \<Rightarrow> world \<Rightarrow> (error + unit) \<times> world" where
  "time_sleep secs w =
     (if secs < 0 then (Inl ValueError, w)
      else (Inr (), w\<lparr> trace := trace w @ [Sleep secs] \<rparr>))"

definition print :: "string \<Rightarrow> world \<Rightarrow> world" where
  "print s w = w\<lparr> printed := printed w @ [s] \<rparr>"

text \<open>\<open>xs.sort(key=..., reverse=...)\<close>: a stable sort that compares keys with \<open><\<close> only;
  with \<open>reverse\<close> the list is reversed, sorted and reversed again, which keeps equal keys in
  their original order.\<close>

fun insort_lt :: "('k \<Rightarrow> 'k \<Rightarrow> bool) \<Rightarrow> ('a \<Rightarrow> 'k) \<Rightarrow> 'a \<Rightarrow> 'a list \<Rightarrow> 'a list" where
  "insort_lt lt key x [] = [x]"
| "insort_lt lt key x (y # ys) =
     (if lt (key y) (key x) then y # insort_lt lt key x ys else x # y # ys)"

definition stable_sort :: "('k \<Rightarrow> 'k \<Rightarrow> bool) \<Rightarrow> ('a \<Rightarrow> 'k) \<Rightarrow> 'a list \<Rightarrow> 'a list" where
  "stable_sort lt key xs = foldr (insort_lt lt key) xs []"

definition list_sort :: "('k \<Rightarrow> 'k \<Rightarrow> bool) \<Rightarrow> ('a \<Rightarrow> 'k) \<Rightarrow> bool \<Rightarrow> 'a list \<Rightarrow> 'a list" where
  "list_sort lt key reverse xs =
     (if reverse then rev (stable_sort lt key (rev xs)) else stable_sort lt key xs)"

section \<open>\<open>safeFloatCast\<close> and \<open>getNvidiaSmiCmd\<close>\<close>

definition safeFloatCast :: "pyenv \<Rightarrow> string \<Rightarrow> error + pyfloat" where
  "safeFloatCast env strNumber =
     (case py_float env strNumber of
        Inr number \<Rightarrow> Inr number
      | Inl ValueError \<Rightarrow> Inr NaN
      | Inl e \<Rightarrow> Inl e)"


text \<open>On Windows a binary that is not on the path is looked for under the system drive, and
  \<open>os.environ["systemdrive"]\<close> raises when the variable is not set.\<close>

definition getNvidiaSmiCmd :: "pyenv \<Rightarrow> error + string" where
  "getNvidiaSmiCmd env =
     (if platform_system env = ''Windows'' then
        (case find_executable env ''nvidia-smi'' of
           Some nvidia_smi \<Rightarrow> Inr nvidia_smi
         | None \<Rightarrow>
             (case systemdrive env of
                None \<Rightarrow> Inl KeyError
              | Some d \<Rightarrow>
                  Inr (d @ [CHR 0x5C] @ ''Program Files'' @ [CHR 0x5C] @ ''NVIDIA Corporation''
                       @ [CHR 0x5C] @ ''NVSMI'' @ [CHR 0x5C] @ ''nvidia-smi.exe'')))
      else Inr ''nvidia-smi'')"

section \<open>\<open>getGPUs\<close>\<close>

definition gpu_query :: "string list" where
  "gpu_query =
     [''--query-gpu=index,uuid,utilization.gpu,memory.total,memory.used,memory.free,driver_version,name,gpu_serial,display_active,display_mode,temperature.gpu,clocks.current.graphics,clocks.current.memory,vbios_version,power.draw,power.limit,compute_mode,pci.bus'',
      ''--format=csv,noheader,nounits'']"

text \<open>The body of the loop over the lines: one line to one \<open>GPU\<close>. Every step that can
  raise is a step of the error monad, in the order of the source.\<close>

definition parseGPU :: "pyenv \<Rightarrow> string \<Rightarrow> error + GPU" where
  "parseGPU env line =
     ebind (py_split line '', '') (\<lambda>vals.
     ebind (py_index vals 0) (\<lambda>v0. ebind (py_int env v0) (\<lambda>deviceIds.
     ebind (py_index vals 1) (\<lambda>uuid'.
     ebind (py_index vals 2) (\<lambda>v2. ebind (safeFloatCast env v2) (\<lambda>f2.
     ebind (py_truediv (round64 env) f2 (Fin 100)) (\<lambda>gpuUtil.
     ebind (py_index vals 3) (\<lambda>v3. ebind (safeFloatCast env v3) (\<lambda>memTotal.
     ebind (py_index vals 4) (\<lambda>v4. ebind (safeFloatCast env v4) (\<lambda>memUsed.
     ebind (py_index vals 5) (\<lambda>v5. ebind (safeFloatCast env v5) (\<lambda>memFree.
     ebind (py_index vals 6) (\<lambda>driver'.
     ebind (py_index vals 7) (\<lambda>gpu_name.
     ebind (py_index vals 8) (\<lambda>serial'.
     ebind (py_index vals 9) (\<lambda>display_active'.
     ebind (py_index vals 10) (\<lambda>display_mode'.
     ebind (py_index vals 11) (\<lambda>v11. ebind (safeFloatCast env v11) (\<lambda>temp_gpu.
     ebind (py_index vals 12) (\<lambda>v12. ebind (py_int env v12) (\<lambda>core_clock'.
     ebind (py_index vals 13) (\<lambda>v13. ebind (py_int env v13) (\<lambda>memory_clock'.
     ebind (py_index vals 14) (\<lambda>vbios_version'.
     ebind (py_index vals 15) (\<lambda>v15. ebind (safeFloatCast env v15) (\<lambda>power_draw'.
     ebind (py_index vals 16) (\<lambda>v16. ebind (safeFloatCast env v16) (\<lambda>power_limit'.
     ebind (py_index vals 17) (\<lambda>compute_mode'.
     ebind (py_index vals 18) (\<lambda>v18. ebind (py_int16 env v18) (\<lambda>pci_bus'.
       GPU_init (round64 env) (PyInt deviceIds) uuid' gpuUtil memTotal memUsed memFree
         driver' gpu_name serial' display_mode' display_active' temp_gpu core_clock'
         memory_clock' vbios_version' power_draw' power_limit' compute_mode'
         pci_bus'))))))))))))))))))))))))))))))))"

text \<open>\<open>for g in range(numDevices)\<close>, appending to \<open>GPUs\<close>; the first line that raises ends
  the loop with its error.\<close>

fun getGPUs_loop :: "pyenv \<Rightarrow> string list \<Rightarrow> nat list \<Rightarrow> GPU list \<Rightarrow> error + GPU list" where
  "getGPUs_loop env lines [] GPUs = Inr GPUs"
| "getGPUs_loop env lines (g # gs) GPUs =
     ebind (py_index lines g) (\<lambda>line.
     ebind (parseGPU env line) (\<lambda>gpu.
       getGPUs_loop env lines gs (GPUs @ [gpu])))"

text \<open>The part of \<open>getGPUs\<close> after the \<open>try\<close>: it is not guarded.\<close>

definition parseGPUs :: "pyenv \<Rightarrow> string \<Rightarrow> error + GPU list" where
  "parseGPUs env output =
     ebind (py_split output (linesep env)) (\<lambda>lines.
       let numDevices = length lines - 1 in
       getGPUs_loop env lines [0..<numDevices] [])"

definition getGPUs :: "pyenv \<Rightarrow> world \<Rightarrow> (error + GPU list) \<times> world" where
  "getGPUs env w =
     (case getNvidiaSmiCmd env of
        Inl e \<Rightarrow> (Inl e, w)
      | Inr nvidia_smi \<Rightarrow>
          (case run_cmd env (nvidia_smi # gpu_query) w of
             (Inl e, w') \<Rightarrow> (Inr [], w')
           | (Inr stdout, w') \<Rightarrow> (parseGPUs env stdout, w')))"

section \<open>\<open>getAvailable\<close>\<close>

text \<open>\<open>[xs[g] for g in idxs]\<close>.\<close>

fun pick :: "'a list \<Rightarrow> nat list \<Rightarrow> error + 'a list" where
  "pick xs [] = Inr []"
| "pick xs (g # gs) =
     ebind (py_index xs g) (\<lambda>x. ebind (pick xs gs) (\<lambda>rest. Inr (x # rest)))"

text \<open>The \<open>key=\<close> functions of the four sorts: a NaN is replaced by an infinity, so the keys
  that are compared are never NaN.\<close>

definition key_first :: "GPU \<Rightarrow> pynum" where
  "key_first x = (if num_isnan (gpu_id x) then PyFloat PInf else gpu_id x)"

definition key_last :: "GPU \<Rightarrow> pynum" where
  "key_last x = (if num_isnan (gpu_id x) then PyFloat NInf else gpu_id x)"

definition key_load :: "GPU \<Rightarrow> pyfloat" where
  "key_load x = (if math_isnan (load x) then PInf else load x)"

definition key_memory :: "GPU \<Rightarrow> pyfloat" where
  "key_memory x = (if math_isnan (memoryUtil x) then PInf else memoryUtil x)"

text \<open>The \<open>if\<close>/\<open>elif\<close> chain on \<open>order\<close>; any other string leaves the list as it is. The
  draw of \<open>random.sample\<close> is the one of the call that started command number \<open>n\<close>.\<close>

definition orderGPUs :: "pyenv \<Rightarrow> nat \<Rightarrow> string \<Rightarrow> GPU list \<Rightarrow> error + GPU list" where
  "orderGPUs env n order GPUs =
     (if order = ''first'' then Inr (list_sort num_lt key_first False GPUs)
      else if order = ''last'' then Inr (list_sort num_lt key_last True GPUs)
      else if order = ''random'' then pick GPUs (random_sample env n (length GPUs))
      else if order = ''load'' then Inr (list_sort fl_lt key_load False GPUs)
      else if order = ''memory'' then Inr (list_sort fl_lt key_memory False GPUs)
      else Inr GPUs)"

text \<open>What \<open>getAvailable\<close> does with the snapshot it fetched; \<open>n\<close> identifies the call.\<close>

definition selectGPUs ::
  "pyenv \<Rightarrow> nat \<Rightarrow> string \<Rightarrow> int \<Rightarrow> pyfloat \<Rightarrow> pyfloat \<Rightarrow> pyfloat \<Rightarrow> bool \<Rightarrow> pynum list \<Rightarrow>
   string list \<Rightarrow> string list \<Rightarrow> GPU list \<Rightarrow> error + pynum list" where
  "selectGPUs env n order limit maxLoad maxMemory memoryFree' includeNan excludeID excludeUUID
     excludeComputeMode GPUs =
     (let GPUavailability = getAvailability GPUs maxLoad maxMemory memoryFree' includeNan
            excludeID excludeUUID excludeComputeMode;
          availAbleGPUindex = filter (\<lambda>idx. GPUavailability ! idx = 1)
            [0..<length GPUavailability]
      in ebind (pick GPUs availAbleGPUindex) (\<lambda>GPUs1.
         ebind (orderGPUs env n order GPUs1) (\<lambda>GPUs2.
           let GPUs3 = py_slice_to GPUs2 (min limit (int (length GPUs2)));
               deviceIds = map gpu_id GPUs3
           in Inr deviceIds)))"

definition getAvailable ::
  "pyenv \<Rightarrow> string \<Rightarrow> int \<Rightarrow> pyfloat \<Rightarrow> pyfloat \<Rightarrow> pyfloat \<Rightarrow> bool \<Rightarrow> pynum list \<Rightarrow>
   string list \<Rightarrow> string list \<Rightarrow> world \<Rightarrow> (error + pynum list) \<times> world" where
  "getAvailable env order limit maxLoad maxMemory memoryFree' includeNan excludeID excludeUUID
     excludeComputeMode w =
     (case getGPUs env w of
        (Inl e, w') \<Rightarrow> (Inl e, w')
      | (Inr GPUs, w') \<Rightarrow>
          (selectGPUs env (spawned w) order limit maxLoad maxMemory memoryFree' includeNan
             excludeID excludeUUID excludeComputeMode GPUs, w'))"

section \<open>\<open>getFirstAvailable\<close>\<close>

text \<open>The \<open>for\<close> loop over \<open>range(attempts)\<close>. The local variable \<open>available\<close> is
  \<open>None\<close> until it is assigned; the loop ends with it, by \<open>break\<close> or at the end of the
  range, or with the error that the selector or the sleep raised.\<close>

fun getFirstAvailable_loop ::
  "pyenv \<Rightarrow> string \<Rightarrow> pyfloat \<Rightarrow> pyfloat \<Rightarrow> int \<Rightarrow> int \<Rightarrow> bool \<Rightarrow> bool \<Rightarrow> pynum list \<Rightarrow>
   string list \<Rightarrow> string list \<Rightarrow> int list \<Rightarrow> pynum list option \<Rightarrow> world \<Rightarrow>
   (error + pynum list option) \<times> world" where
  "getFirstAvailable_loop env order maxLoad maxMemory attempts interval verbose includeNan
     excludeID excludeUUID excludeComputeMode [] available w = (Inr available, w)"
| "getFirstAvailable_loop env order maxLoad maxMemory attempts interval verbose includeNan
     excludeID excludeUUID excludeComputeMode (i # rest) available w =
     (let w1 = (if verbose
                then print (''Attempting ('' @ str_int (i + 1) @ ''/'' @ str_int attempts
                            @ '') to locate available GPU.'') w
                else w)
      in case getAvailable env order 1 maxLoad maxMemory (Fin 0) includeNan excludeID
                excludeUUID excludeComputeMode w1 of
           (Inl e, w2) \<Rightarrow> (Inl e, w2)
         | (Inr found, w2) \<Rightarrow>
             if found \<noteq> [] then
               (Inr (Some found),
                if verbose then print (''GPU '' @ str_list env found @ '' located!'') w2
                else w2)
             else if i \<noteq> attempts - 1 then
               (case time_sleep interval w2 of
                  (Inl e, w3) \<Rightarrow> (Inl e, w3)
                | (Inr u, w3) \<Rightarrow>
                    getFirstAvailable_loop env order maxLoad maxMemory attempts interval
                      verbose includeNan excludeID excludeUUID excludeComputeMode rest
                      (Some found) w3)
             else
               getFirstAvailable_loop env order maxLoad maxMemory attempts interval verbose
                 includeNan excludeID excludeUUID excludeComputeMode rest (Some found) w2)"

definition no_gpu_message :: "int \<Rightarrow> int \<Rightarrow> string" where
  "no_gpu_message attempts interval =
     ''Could not find an available GPU after '' @ str_int attempts @ '' attempts with ''
     @ str_int interval @ '' seconds interval.''"

definition getFirstAvailable ::
  "pyenv \<Rightarrow> string \<Rightarrow> pyfloat \<Rightarrow> pyfloat \<Rightarrow> int \<Rightarrow> int \<Rightarrow> bool \<Rightarrow> bool \<Rightarrow> pynum list \<Rightarrow>
   string list \<Rightarrow> string list \<Rightarrow> world \<Rightarrow> (error + pynum list) \<times> world" where
  "getFirstAvailable env order maxLoad maxMemory attempts interval verbose includeNan
     excludeID excludeUUID excludeComputeMode w =
     (case getFirstAvailable_loop env order maxLoad maxMemory attempts interval verbose
             includeNan excludeID excludeUUID excludeComputeMode (py_range attempts) None w of
        (Inl e, w') \<Rightarrow> (Inl e, w')
      | (Inr None, w') \<Rightarrow> (Inl UnboundLocalError, w')
      | (Inr (Some available), w') \<Rightarrow>
          if available = [] then (Inl (RuntimeError (no_gpu_message attempts interval)), w')
          else (Inr available, w'))"

section \<open>\<open>getGPUProcesses\<close> and the map built when the module is loaded\<close>

record GPUProcess =
  pid :: int
  processName :: string
  gpuId :: pynum
  gpuUuid :: string
  gpuName :: string
  usedMemory :: pyfloat
  uid :: int
  uname :: string

text \<open>\<open>s.split()\<close>: the words between runs of white space.\<close>

definition is_space :: "char \<Rightarrow> bool" where
  "is_space c = (of_char c \<in> {9, 10, 11, 12, 13, 28, 29, 30, 31, 32 :: nat})"

fun split_ws_from :: "string \<Rightarrow> string \<Rightarrow> string list" where
  "split_ws_from acc [] = (if acc = [] then [] else [rev acc])"
| "split_ws_from acc (c # cs) =
     (if is_space c then (if acc = [] then split_ws_from [] cs
                          else rev acc # split_ws_from [] cs)
      else split_ws_from (c # acc) cs)"

definition py_split_ws :: "string \<Rightarrow> string list" where
  "py_split_ws s = split_ws_from [] s"

text \<open>The owner of a process: the \<open>try\<close> around \<open>ps\<close>, the unpacking of its two words and
  \<open>int(uid)\<close>; whatever is raised there gives \<open>(-1, "")\<close>.\<close>

definition process_owner :: "pyenv \<Rightarrow> int \<Rightarrow> world \<Rightarrow> (int \<times> string) \<times> world" where
  "process_owner env pid' w =
     (case run_cmd env [''ps'', ''-p'' @ str_int pid', ''-oruid=,ruser=''] w of
        (Inl e, w') \<Rightarrow> ((- 1, []), w')
      | (Inr out, w') \<Rightarrow>
          (case py_split_ws out of
             [uid', uname'] \<Rightarrow>
               (case py_int env uid' of
                  Inl e \<Rightarrow> ((- 1, []), w')
                | Inr n \<Rightarrow> ((n, uname'), w'))
           | _ \<Rightarrow> ((- 1, []), w')))"

text \<open>\<open>d[k]\<close> on a dictionary raises for a key that is not there. The values of
  \<open>gpuUuidToIdMap\<close> are the \<open>id\<close> fields, which may be Python's \<open>None\<close>.\<close>

definition dict_get :: "('k \<rightharpoonup> 'v) \<Rightarrow> 'k \<Rightarrow> error + 'v" where
  "dict_get d k = (case d k of None \<Rightarrow> Inl KeyError | Some v \<Rightarrow> Inr v)"

definition process_query :: "string list" where
  "process_query =
     [''--query-compute-apps=pid,process_name,gpu_uuid,gpu_name,used_memory'',
      ''--format=csv,noheader,nounits'']"

text \<open>What one line gives before the owner is looked up.\<close>

definition parseProcess ::
  "pyenv \<Rightarrow> (string \<rightharpoonup> pynum option) \<Rightarrow> string \<Rightarrow>
   error + (int \<times> string \<times> pynum \<times> string \<times> string \<times> pyfloat)" where
  "parseProcess env gpuUuidToIdMap line =
     ebind (py_split line '', '') (\<lambda>vals.
     ebind (py_index vals 0) (\<lambda>v0. ebind (py_int env v0) (\<lambda>pid'.
     ebind (py_index vals 1) (\<lambda>processName'.
     ebind (py_index vals 2) (\<lambda>gpuUuid'.
     ebind (py_index vals 3) (\<lambda>gpuName'.
     ebind (py_index vals 4) (\<lambda>v4. ebind (safeFloatCast env v4) (\<lambda>usedMemory'.
     ebind (dict_get gpuUuidToIdMap gpuUuid') (\<lambda>found.
       let gpuId' = (case found of None \<Rightarrow> PyInt (- 1) | Some x \<Rightarrow> x)
       in Inr (pid', processName', gpuId', gpuUuid', gpuName', usedMemory'))))))))))"

fun getGPUProcesses_loop ::
  "pyenv \<Rightarrow> (string \<rightharpoonup> pynum option) \<Rightarrow> string list \<Rightarrow> nat list \<Rightarrow> GPUProcess list \<Rightarrow>
   world \<Rightarrow> (error + GPUProcess list) \<times> world" where
  "getGPUProcesses_loop env gpuUuidToIdMap lines [] processes w = (Inr processes, w)"
| "getGPUProcesses_loop env gpuUuidToIdMap lines (g # gs) processes w =
     (case ebind (py_index lines g) (parseProcess env gpuUuidToIdMap) of
        Inl e \<Rightarrow> (Inl e, w)
      | Inr (pid', processName', gpuId', gpuUuid', gpuName', usedMemory') \<Rightarrow>
          (case process_owner env pid' w of
             ((uid', uname'), w') \<Rightarrow>
               getGPUProcesses_loop env gpuUuidToIdMap lines gs
                 (processes @ [\<lparr> pid = pid', processName = processName', gpuId = gpuId',
                    gpuUuid = gpuUuid', gpuName = gpuName', usedMemory = usedMemory',
                    uid = uid', uname = uname' \<rparr>]) w'))"

definition getGPUProcesses ::
  "pyenv \<Rightarrow> (string \<rightharpoonup> pynum option) \<Rightarrow> world \<Rightarrow> (error + GPUProcess list) \<times> world" where
  "getGPUProcesses env gpuUuidToIdMap w =
     (case getNvidiaSmiCmd env of
        Inl e \<Rightarrow> (Inl e, w)
      | Inr nvidia_smi \<Rightarrow>
          (case run_cmd env (nvidia_smi # process_query) w of
             (Inl e, w') \<Rightarrow> (Inr [], w')
           | (Inr stdout, w') \<Rightarrow>
               (case py_split stdout (linesep env) of
                  Inl e \<Rightarrow> (Inl e, w')
                | Inr lines \<Rightarrow>
                    getGPUProcesses_loop env gpuUuidToIdMap lines
                      [0..<length lines - 1] [] w')))"

text \<open>The last statements of the module: the map from uuid to id of the GPUs seen when the
  module is loaded, empty when that snapshot raises.\<close>

definition init_gpuUuidToIdMap :: "pyenv \<Rightarrow> world \<Rightarrow> (string \<rightharpoonup> pynum option) \<times> world" where
  "init_gpuUuidToIdMap env w =
     (case getGPUs env w of
        (Inl e, w') \<Rightarrow> (Map.empty, w')
      | (Inr gpus, w') \<Rightarrow>
          (fold (\<lambda>gpu m. m(uuid gpu \<mapsto> Some (gpu_id gpu))) gpus Map.empty, w'))"

section \<open>A sample platform\<close>

text \<open>
  The concrete inputs below run on a sample platform: Linux, line feed as the line
  terminator, and parsers for the plain ASCII literals that the telemetry tool prints (a
  decimal integer with an optional minus sign, a hexadecimal integer with an optional
  \<open>0x\<close>, a float written as a decimal integer); they reject every other string. A quotient
  is taken as it is, \<open>random.sample\<close> draws the identity, and the external commands are
  the parameter \<open>run\<close>.
\<close>

definition dec_digit :: "char \<Rightarrow> nat option" where
  "dec_digit = map_of
     [(CHR ''0'', 0), (CHR ''1'', 1), (CHR ''2'', 2), (CHR ''3'', 3), (CHR ''4'', 4),
      (CHR ''5'', 5), (CHR ''6'', 6), (CHR ''7'', 7), (CHR ''8'', 8), (CHR ''9'', 9)]"

definition hex_digit :: "char \<Rightarrow> nat option" where
  "hex_digit = map_of
     [(CHR ''0'', 0), (CHR ''1'', 1), (CHR ''2'', 2), (CHR ''3'', 3), (CHR ''4'', 4),
      (CHR ''5'', 5), (CHR ''6'', 6), (CHR ''7'', 7), (CHR ''8'', 8), (CHR ''9'', 9),
      (CHR ''a'', 10), (CHR ''b'', 11), (CHR ''c'', 12), (CHR ''d'', 13), (CHR ''e'', 14),
      (CHR ''f'', 15), (CHR ''A'', 10), (CHR ''B'', 11), (CHR ''C'', 12), (CHR ''D'', 13),
      (CHR ''E'', 14), (CHR ''F'', 15)]"

fun digits_value :: "(char \<Rightarrow> nat option) \<Rightarrow> nat \<Rightarrow> nat \<Rightarrow> string \<Rightarrow> nat option" where
  "digits_value dv b acc [] = Some acc"
| "digits_value dv b acc (c # cs) =
     (case dv c of None \<Rightarrow> None | Some d \<Rightarrow> digits_value dv b (acc * b + d) cs)"

definition ascii_nat :: "(char \<Rightarrow> nat option) \<Rightarrow> nat \<Rightarrow> string \<Rightarrow> nat option" where
  "ascii_nat dv b s = (if s = [] then None else digits_value dv b 0 s)"

definition ascii_int :: "string \<Rightarrow> int option" where
  "ascii_int s =
     (case s of
        [] \<Rightarrow> None
      | c # cs \<Rightarrow>
          if c = CHR ''-'' then map_option (\<lambda>n. - int n) (ascii_nat dec_digit 10 cs)
          else map_option int (ascii_nat dec_digit 10 s))"

definition ascii_hex :: "string \<Rightarrow> int option" where
  "ascii_hex s =
     map_option int (ascii_nat hex_digit 16 (if prefix ''0x'' s then drop 2 s else s))"

definition ascii_float :: "string \<Rightarrow> pyfloat option" where
  "ascii_float s = map_option (\<lambda>i. Fin (of_int i)) (ascii_int s)"

definition sample_env :: "(nat \<Rightarrow> string list \<Rightarrow> error + string) \<Rightarrow> pyenv" where
  "sample_env run =
     \<lparr> float_of_str = ascii_float, int_of_str = ascii_int, int_of_hex = ascii_hex,
       round64 = Fin, repr_float = (\<lambda>x. ''nan''), linesep = [CHR 0x0A],
       platform_system = ''Linux'', find_executable = (\<lambda>exe. None), systemdrive = None,
       subprocess_run = run, random_sample = (\<lambda>n k. [0..<k]) \<rparr>"

definition world0 :: world where
  "world0 = \<lparr> spawned = 0, trace = [], printed = [] \<rparr>"

text \<open>A GPU as \<open>getGPUs\<close> builds it, from the few fields that the selection reads.\<close>

definition sample_gpu :: "pynum \<Rightarrow> string \<Rightarrow> pyfloat \<Rightarrow> pyfloat \<Rightarrow> pyfloat \<Rightarrow> string \<Rightarrow> GPU" where
  "sample_gpu i u l m f c =
     \<lparr> gpu_id = i, uuid = u, load = l, memoryUtil = m, memoryTotal = Fin 16384,
       memoryUsed = Fin 4096, memoryFree = f, driver = ''535.104'', name = ''Tesla T4'',
       serial = ''0123'', display_mode = ''Disabled'', display_active = ''Disabled'',
       temperature = Fin 40, vbios_version = ''90.04'', power_draw = Fin 27,
       power_limit = Fin 70, core_clock = 300, memory_clock = 5000, compute_mode = c,
       pci_bus = 1 \<rparr>"

definition sample_line :: "string \<Rightarrow> string \<Rightarrow> string \<Rightarrow> string \<Rightarrow> string" where
  "sample_line idx util mtotal mused =
     idx @ '', GPU-0a, '' @ util @ '', '' @ mtotal @ '', '' @ mused
     @ '', 12288, 535.104, Tesla T4, 0123, Disabled, Disabled, 40, 300, 5000, 90.04, 27, 70, Default, 0x01''"

text \<open>Three idle GPUs, reported in the order of ids 2, 0, 1; a snapshot in which one id is
  NaN; and the text that the tool prints for two idle GPUs.\<close>

definition sample_gpus :: "GPU list" where
  "sample_gpus =
     [sample_gpu (PyInt 2) ''GPU-2c'' (Fin 0.1) (Fin 0.25) (Fin 12288) ''Default'',
      sample_gpu (PyInt 0) ''GPU-0a'' (Fin 0.1) (Fin 0.25) (Fin 12288) ''Default'',
      sample_gpu (PyInt 1) ''GPU-1b'' (Fin 0.1) (Fin 0.25) (Fin 12288) ''Default'']"

definition nan_id_gpus :: "GPU list" where
  "nan_id_gpus =
     [sample_gpu (PyFloat NaN) ''GPU-0a'' (Fin 0.1) (Fin 0.25) (Fin 12288) ''Default'',
      sample_gpu (PyInt 1) ''GPU-1b'' (Fin 0.1) (Fin 0.25) (Fin 12288) ''Default'']"

definition two_gpu_output :: string where
  "two_gpu_output =
     sample_line ''0'' ''35'' ''16384'' ''4096'' @ [CHR 0x0A]
     @ sample_line ''1'' ''35'' ''16384'' ''4096'' @ [CHR 0x0A]"

text \<open>The nineteen fields of a sample line; a line that is well formed but reports a total
  memory of zero; and a line whose utilisation and used memory are not numbers.\<close>

definition sample_fields :: "string \<Rightarrow> string \<Rightarrow> string \<Rightarrow> string \<Rightarrow> string list" where
  "sample_fields idx util mtotal mused =
     [idx, ''GPU-0a'', util, mtotal, mused, ''12288'', ''535.104'', ''Tesla T4'', ''0123'',
      ''Disabled'', ''Disabled'', ''40'', ''300'', ''5000'', ''90.04'', ''27'', ''70'',
      ''Default'', ''0x01'']"

definition zero_total_line :: string where
  "zero_total_line = sample_line ''0'' ''35'' ''0'' ''4096''"

definition nan_fields_line :: string where
  "nan_fields_line = sample_line ''0'' ''[N/A]'' ''16384'' ''[N/A]''"

section \<open>Facts about the error monad, the builtins and the line parser\<close>






lemma py_truediv_Inl_iff: "py_truediv r a b = Inl e \<longleftrightarrow> b = Fin 0 \<and> e = ZeroDivisionError"
  by (cases b; cases a) auto


lemma py_truediv_nan_right: "py_truediv r a NaN = Inr NaN"
  by simp




section \<open>The availability filter\<close>

text \<open>
  Claim C1. For every list of GPUs and every setting of the thresholds and exclusion lists,
  \<open>getAvailability\<close> returns a list as long as its input, in the same order, whose entry
  at index \<open>i\<close> is \<open>1\<close> exactly when the GPU at \<open>i\<close> passes all six tests: its free
  memory is at least the minimum; its load is below \<open>maxLoad\<close>, or it is NaN and
  \<open>includeNan\<close> is set; the same for its memory utilisation and \<open>maxMemory\<close>; its id,
  its uuid and its compute mode are not in the exclusion lists. Every other entry is \<open>0\<close>.
  The comparisons are strict: a GPU whose load equals \<open>maxLoad\<close> gets \<open>0\<close>.
\<close>

theorem getAvailability_marks:
  "length (getAvailability GPUs maxLoad maxMemory minFree includeNan excludeID excludeUUID
             excludeComputeMode) = length GPUs
   \<and> (\<forall>i < length GPUs.
        (getAvailability GPUs maxLoad maxMemory minFree includeNan excludeID excludeUUID
           excludeComputeMode ! i = 1)
        = (fl_ge (memoryFree (GPUs ! i)) minFree
           \<and> (fl_lt (load (GPUs ! i)) maxLoad \<or> (includeNan \<and> math_isnan (load (GPUs ! i))))
           \<and> (fl_lt (memoryUtil (GPUs ! i)) maxMemory
                \<or> (includeNan \<and> math_isnan (memoryUtil (GPUs ! i))))
           \<and> \<not> num_in (gpu_id (GPUs ! i)) excludeID
           \<and> \<not> str_in (uuid (GPUs ! i)) excludeUUID
           \<and> \<not> str_in (compute_mode (GPUs ! i)) excludeComputeMode)
        \<and> (getAvailability GPUs maxLoad maxMemory minFree includeNan excludeID excludeUUID
              excludeComputeMode ! i \<in> {0, 1})
        \<and> (fl_eq (load (GPUs ! i)) maxLoad \<longrightarrow>
              getAvailability GPUs maxLoad maxMemory minFree includeNan excludeID
                excludeUUID excludeComputeMode ! i = 0))"
proof -
  have strict: "\<not> fl_lt x y \<and> \<not> math_isnan x" if "fl_eq x y" for x y
    using that by (cases x; cases y) (simp_all add: math_isnan_def)
  show ?thesis
    by (auto simp: getAvailability_def dest: strict)
qed

theorem getAvailability_marks_witness:
  "(0::nat) < length [sample_gpu (PyInt 0) ''GPU-0a'' (Fin 0.5) (Fin 0.25) (Fin 12288) ''Default'',
                      sample_gpu (PyInt 1) ''GPU-1b'' (Fin 0.3) (Fin 0.25) (Fin 12288) ''Default'']
   \<and> getAvailability
        [sample_gpu (PyInt 0) ''GPU-0a'' (Fin 0.5) (Fin 0.25) (Fin 12288) ''Default'',
         sample_gpu (PyInt 1) ''GPU-1b'' (Fin 0.3) (Fin 0.25) (Fin 12288) ''Default'']
        (Fin 0.5) (Fin 0.5) (Fin 0) False [] [] [''Exclusive_Process''] ! 0 = 0
   \<and> getAvailability
        [sample_gpu (PyInt 0) ''GPU-0a'' (Fin 0.5) (Fin 0.25) (Fin 12288) ''Default'',
         sample_gpu (PyInt 1) ''GPU-1b'' (Fin 0.3) (Fin 0.25) (Fin 12288) ''Default'']
        (Fin 0.5) (Fin 0.5) (Fin 0) False [] [] [''Exclusive_Process''] ! 1 = 1"
  using getAvailability_marks
    [of "[sample_gpu (PyInt 0) ''GPU-0a'' (Fin 0.5) (Fin 0.25) (Fin 12288) ''Default'',
          sample_gpu (PyInt 1) ''GPU-1b'' (Fin 0.3) (Fin 0.25) (Fin 12288) ''Default'']"
        "Fin 0.5" "Fin 0.5" "Fin 0" False "[]" "[]" "[''Exclusive_Process'']"]
  by (simp add: sample_gpu_def fl_ge_def num_in_def str_in_def math_isnan_def)

section \<open>The constructor and the line parser\<close>








section \<open>The snapshot\<close>




section \<open>The process list\<close>

text \<open>
  Claim C9 is what the code aims at and misses. With an empty uuid-to-id map (the snapshot
  taken when the module was loaded raised, or returned no GPU) and one running process,
  \<open>gpuUuidToIdMap[gpuUuid]\<close> raises KeyError before the test \<open>gpuId is None\<close> is
  reached: \<open>getGPUProcesses\<close> raises and returns no record, instead of a record with
  \<open>gpuId = -1\<close>.
\<close>

theorem getGPUProcesses_unknown_uuid_raises:
  "fst (getGPUProcesses
          (sample_env (\<lambda>n argv. if n = 0
                                then Inr (''4242, python, GPU-0a, Tesla T4, 1024'' @ [CHR 0x0A])
                                else Inr ''1000 alice''))
          Map.empty world0) = Inl KeyError"
  by (simp add: getGPUProcesses_def getNvidiaSmiCmd_def run_cmd_def parseProcess_def
      sample_env_def py_split_def ebind_def world0_def dict_get_def
      py_index_def py_int_def safeFloatCast_def py_float_def ascii_int_def
      ascii_float_def ascii_nat_def dec_digit_def)

section \<open>The retry wrapper\<close>

text \<open>
  Claim C10. With \<open>attempts = 0\<close> the loop body never runs: no command is started,
  nothing is printed and nothing sleeps (the world is unchanged), \<open>available\<close> is never
  assigned, and the call ends with UnboundLocalError, which is neither a result nor the
  RuntimeError of the exhausted attempts.
\<close>

theorem getFirstAvailable_zero_attempts:
  "getFirstAvailable env order maxLoad maxMemory 0 interval verbose includeNan excludeID
     excludeUUID excludeComputeMode w = (Inl UnboundLocalError, w)"
  by (simp add: getFirstAvailable_def py_range_def)

end
